theory Spec2Isabelle
  imports Main "HOL-Library.Word" "HOL-Library.Signed_Division"
begin

unbundle bit_operations_syntax

section \<open>Machine types\<close>

text \<open>
  The headers use the fixed-width C types \<open>uint8_t\<close>, \<open>uint32_t\<close>, \<open>uint64_t\<close> and
  \<open>int\<close> (32 bits, two's complement on the Windows targets of the library). A C \<open>int\<close>
  is kept as a 32-bit word that \<open>sint\<close> reads.
\<close>

type_synonym u8 = "8 word"
type_synonym u32 = "32 word"
type_synonym u64 = "64 word"
type_synonym c_int = "32 word"

section \<open>winsock.h: the AFD driver interface\<close>

subsection \<open>Poll events\<close>

definition AFD_POLL_RECEIVE_BIT :: nat where
  "AFD_POLL_RECEIVE_BIT = 0"

definition AFD_POLL_RECEIVE :: c_int where
  "AFD_POLL_RECEIVE = push_bit AFD_POLL_RECEIVE_BIT 1"

definition AFD_POLL_RECEIVE_EXPEDITED_BIT :: nat where
  "AFD_POLL_RECEIVE_EXPEDITED_BIT = 1"

definition AFD_POLL_RECEIVE_EXPEDITED :: c_int where
  "AFD_POLL_RECEIVE_EXPEDITED = push_bit AFD_POLL_RECEIVE_EXPEDITED_BIT 1"

definition AFD_POLL_SEND_BIT :: nat where
  "AFD_POLL_SEND_BIT = 2"

definition AFD_POLL_SEND :: c_int where
  "AFD_POLL_SEND = push_bit AFD_POLL_SEND_BIT 1"

definition AFD_POLL_DISCONNECT_BIT :: nat where
  "AFD_POLL_DISCONNECT_BIT = 3"

definition AFD_POLL_DISCONNECT :: c_int where
  "AFD_POLL_DISCONNECT = push_bit AFD_POLL_DISCONNECT_BIT 1"

definition AFD_POLL_ABORT_BIT :: nat where
  "AFD_POLL_ABORT_BIT = 4"

definition AFD_POLL_ABORT :: c_int where
  "AFD_POLL_ABORT = push_bit AFD_POLL_ABORT_BIT 1"

definition AFD_POLL_LOCAL_CLOSE_BIT :: nat where
  "AFD_POLL_LOCAL_CLOSE_BIT = 5"

definition AFD_POLL_LOCAL_CLOSE :: c_int where
  "AFD_POLL_LOCAL_CLOSE = push_bit AFD_POLL_LOCAL_CLOSE_BIT 1"

definition AFD_POLL_CONNECT_BIT :: nat where
  "AFD_POLL_CONNECT_BIT = 6"

definition AFD_POLL_CONNECT :: c_int where
  "AFD_POLL_CONNECT = push_bit AFD_POLL_CONNECT_BIT 1"

definition AFD_POLL_ACCEPT_BIT :: nat where
  "AFD_POLL_ACCEPT_BIT = 7"

definition AFD_POLL_ACCEPT :: c_int where
  "AFD_POLL_ACCEPT = push_bit AFD_POLL_ACCEPT_BIT 1"

definition AFD_POLL_CONNECT_FAIL_BIT :: nat where
  "AFD_POLL_CONNECT_FAIL_BIT = 8"

definition AFD_POLL_CONNECT_FAIL :: c_int where
  "AFD_POLL_CONNECT_FAIL = push_bit AFD_POLL_CONNECT_FAIL_BIT 1"

definition AFD_POLL_QOS_BIT :: nat where
  "AFD_POLL_QOS_BIT = 9"

definition AFD_POLL_QOS :: c_int where
  "AFD_POLL_QOS = push_bit AFD_POLL_QOS_BIT 1"

definition AFD_POLL_GROUP_QOS_BIT :: nat where
  "AFD_POLL_GROUP_QOS_BIT = 10"

definition AFD_POLL_GROUP_QOS :: c_int where
  "AFD_POLL_GROUP_QOS = push_bit AFD_POLL_GROUP_QOS_BIT 1"

definition AFD_NUM_POLL_EVENTS :: nat where
  "AFD_NUM_POLL_EVENTS = 11"

definition AFD_POLL_ALL :: c_int where
  "AFD_POLL_ALL = push_bit AFD_NUM_POLL_EVENTS 1 - 1"

text \<open>The eleven event constants in the order of the header.\<close>

definition afd_poll_events :: "c_int list" where
  "afd_poll_events =
     [AFD_POLL_RECEIVE, AFD_POLL_RECEIVE_EXPEDITED, AFD_POLL_SEND, AFD_POLL_DISCONNECT,
      AFD_POLL_ABORT, AFD_POLL_LOCAL_CLOSE, AFD_POLL_CONNECT, AFD_POLL_ACCEPT,
      AFD_POLL_CONNECT_FAIL, AFD_POLL_QOS, AFD_POLL_GROUP_QOS]"

subsection \<open>Control codes\<close>

text \<open>
  \<open>FILE_DEVICE_NETWORK\<close>, \<open>METHOD_BUFFERED\<close> and \<open>METHOD_NEITHER\<close> come from the
  platform's own headers, which the header includes and the repository does not hold.
  They are parameters of the model, gathered in one record.
\<close>

record winioctl =
  FILE_DEVICE_NETWORK :: c_int
  METHOD_BUFFERED :: c_int
  METHOD_NEITHER :: c_int

definition FSCTL_AFD_BASE :: "winioctl \<Rightarrow> c_int" where
  "FSCTL_AFD_BASE sdk = FILE_DEVICE_NETWORK sdk"

text \<open>
  \<open>_AFD_CONTROL_CODE(operation, method)\<close> is
  \<open>((FSCTL_AFD_BASE) << 12 | (operation << 2) | method)\<close>: in C a shift binds tighter
  than \<open>|\<close>. The macro's name loses its leading underscore here.
\<close>

definition AFD_CONTROL_CODE :: "winioctl \<Rightarrow> c_int \<Rightarrow> c_int \<Rightarrow> c_int" where
  "AFD_CONTROL_CODE sdk operation method =
     push_bit 12 (FSCTL_AFD_BASE sdk) OR push_bit 2 operation OR method"

definition AFD_RECEIVE :: c_int where
  "AFD_RECEIVE = 5"

definition AFD_RECEIVE_DATAGRAM :: c_int where
  "AFD_RECEIVE_DATAGRAM = 6"

definition AFD_POLL :: c_int where
  "AFD_POLL = 9"

definition IOCTL_AFD_RECEIVE :: "winioctl \<Rightarrow> c_int" where
  "IOCTL_AFD_RECEIVE sdk = AFD_CONTROL_CODE sdk AFD_RECEIVE (METHOD_NEITHER sdk)"

definition IOCTL_AFD_RECEIVE_DATAGRAM :: "winioctl \<Rightarrow> c_int" where
  "IOCTL_AFD_RECEIVE_DATAGRAM sdk =
     AFD_CONTROL_CODE sdk AFD_RECEIVE_DATAGRAM (METHOD_NEITHER sdk)"

definition IOCTL_AFD_POLL :: "winioctl \<Rightarrow> c_int" where
  "IOCTL_AFD_POLL sdk = AFD_CONTROL_CODE sdk AFD_POLL (METHOD_BUFFERED sdk)"

section \<open>md.h: the generic message digest layer\<close>

subsection \<open>Error codes\<close>

definition POLARSSL_ERR_MD_FEATURE_UNAVAILABLE :: int where
  "POLARSSL_ERR_MD_FEATURE_UNAVAILABLE = - 0x5080"

definition POLARSSL_ERR_MD_BAD_INPUT_DATA :: int where
  "POLARSSL_ERR_MD_BAD_INPUT_DATA = - 0x5100"

definition POLARSSL_ERR_MD_ALLOC_FAILED :: int where
  "POLARSSL_ERR_MD_ALLOC_FAILED = - 0x5180"

definition POLARSSL_ERR_MD_FILE_IO_ERROR :: int where
  "POLARSSL_ERR_MD_FILE_IO_ERROR = - 0x5200"

text \<open>Every function of the layer documents \<open>0\<close> as its return value on success.\<close>

definition md_success :: int where
  "md_success = 0"

subsection \<open>Digest kinds and descriptors\<close>

datatype md_type_t =
    POLARSSL_MD_NONE
  | POLARSSL_MD_SHA224
  | POLARSSL_MD_SHA256
  | POLARSSL_MD_SHA384
  | POLARSSL_MD_SHA512

text \<open>The enumerators' values: the first is given as 0, each next one is one more.\<close>

primrec md_type_value :: "md_type_t \<Rightarrow> int" where
  "md_type_value POLARSSL_MD_NONE = 0"
| "md_type_value POLARSSL_MD_SHA224 = 1"
| "md_type_value POLARSSL_MD_SHA256 = 2"
| "md_type_value POLARSSL_MD_SHA384 = 3"
| "md_type_value POLARSSL_MD_SHA512 = 4"

text \<open>
  \<open>POLARSSL_MD_MAX_SIZE\<close> is set under \<open>#if defined(POLARSSL_SHA512_C)\<close>. The header
  does not define that symbol itself: the build configuration does, so it is a parameter.
\<close>

definition POLARSSL_MD_MAX_SIZE :: "bool \<Rightarrow> nat" where
  "POLARSSL_MD_MAX_SIZE sha512_c = (if sha512_c then 64 else 32)"

text \<open>
  Modelled from the spec: the descriptors of the digest kinds, which hold each kind's output
  size, belong to the registry's table and are not among the sources. The spec names the
  kinds SHA-224, SHA-256, SHA-384 and SHA-512 and sizes the maximum, 64 bytes, for the
  largest of them; a kind's output has as many bits as its name says, so 28, 32, 48 and 64
  bytes. \<open>POLARSSL_MD_NONE\<close> is no digest and has no output.
\<close>

primrec md_output_size :: "md_type_t \<Rightarrow> nat" where
  "md_output_size POLARSSL_MD_NONE = 0"
| "md_output_size POLARSSL_MD_SHA224 = 28"
| "md_output_size POLARSSL_MD_SHA256 = 32"
| "md_output_size POLARSSL_MD_SHA384 = 48"
| "md_output_size POLARSSL_MD_SHA512 = 64"

text \<open>
  \<open>md_info_t\<close>. A function pointer that works on the untyped context \<open>void *ctx\<close>
  becomes a function on an abstract context type that returns the context it leaves
  behind; an input buffer with its length is a byte list, an output buffer is the byte
  list written. A pointer that may be \<open>NULL\<close> is an option.
\<close>

record 'ctx md_info_t =
  type :: md_type_t
  name :: "string option"
  size' :: c_int
  starts_func :: "'ctx \<Rightarrow> 'ctx"
  update_func :: "'ctx \<Rightarrow> u8 list \<Rightarrow> 'ctx"
  finish_func :: "'ctx \<Rightarrow> 'ctx \<times> u8 list"
  digest_func :: "u8 list \<Rightarrow> u8 list"
  hmac_starts_func :: "'ctx \<Rightarrow> u8 list \<Rightarrow> 'ctx"
  hmac_update_func :: "'ctx \<Rightarrow> u8 list \<Rightarrow> 'ctx"
  hmac_finish_func :: "'ctx \<Rightarrow> 'ctx \<times> u8 list"
  hmac_reset_func :: "'ctx \<Rightarrow> 'ctx"
  hmac_func :: "u8 list \<Rightarrow> u8 list \<Rightarrow> u8 list"
  ctx_alloc_func :: "unit \<Rightarrow> 'ctx option"
  ctx_free_func :: "'ctx \<Rightarrow> unit"
  process_func :: "'ctx \<Rightarrow> u8 list \<Rightarrow> 'ctx"

text \<open>
  \<open>md_get_size\<close> returns \<open>uint8_t\<close>: the \<open>int\<close> field is converted on return, which
  keeps its low eight bits.
\<close>

definition md_get_size :: "'ctx md_info_t option \<Rightarrow> u8" where
  "md_get_size md_info =
     (case md_info of None \<Rightarrow> 0 | Some info \<Rightarrow> ucast (size' info))"

definition md_get_type :: "'ctx md_info_t option \<Rightarrow> md_type_t" where
  "md_get_type md_info =
     (case md_info of None \<Rightarrow> POLARSSL_MD_NONE | Some info \<Rightarrow> type info)"

definition md_get_name :: "'ctx md_info_t option \<Rightarrow> string option" where
  "md_get_name md_info =
     (case md_info of None \<Rightarrow> None | Some info \<Rightarrow> name info)"

text \<open>A descriptor to evaluate the accessors on: a digest of 32 bytes with an empty context.\<close>

definition sample_info :: "unit md_info_t" where
  "sample_info =
     \<lparr> type = POLARSSL_MD_SHA256, name = Some ''SHA256'', size' = 32,
       starts_func = (\<lambda>c. c), update_func = (\<lambda>c _. c), finish_func = (\<lambda>c. (c, [])),
       digest_func = (\<lambda>_. []), hmac_starts_func = (\<lambda>c _. c),
       hmac_update_func = (\<lambda>c _. c), hmac_finish_func = (\<lambda>c. (c, [])),
       hmac_reset_func = (\<lambda>c. c), hmac_func = (\<lambda>_ _. []),
       ctx_alloc_func = (\<lambda>_. Some ()), ctx_free_func = (\<lambda>_. ()),
       process_func = (\<lambda>c _. c) \<rparr>"

section \<open>raw_disk.h: drives and sectors\<close>

subsection \<open>Drive descriptors\<close>

text \<open>
  A C array \<open>T x[16]\<close> is a sequence of exactly 16 values of \<open>T\<close>; \<open>slots\<close> reads
  them in index order.
\<close>

typedef 'a array16 = "{xs :: 'a list. length xs = 16}"
  morphisms slots Array16
proof
  show "replicate 16 undefined \<in> {xs :: 'a list. length xs = 16}"
    by simp
qed

text \<open>The anonymous struct of one entry of \<open>disks\<close>.\<close>

record disk_extent =
  number :: u32
  size_disk :: u64
  prt_start :: u64
  prt_size :: u64

record drive_info_t =
  dsk_type :: u32
  dsk_num :: u32
  use_gpt :: c_int
  par_numb :: c_int
  par_size :: u64
  disks :: "disk_extent array16"

subsection \<open>Sector arithmetic\<close>

definition SECTOR_SIZE :: int where
  "SECTOR_SIZE = 512"

text \<open>
  \<open>IS_INVALID_SECTOR_SIZE(_s)\<close> is \<open>(_s) % SECTOR_SIZE\<close>. The macro takes the type of
  its operand: with an unsigned operand of 32 or 64 bits the constant is converted to
  that type and the remainder is unsigned; with an \<open>int\<close> operand the remainder is C's
  signed one, which truncates towards zero and has the sign of the dividend.
\<close>

definition IS_INVALID_SECTOR_SIZE :: "'a::len word \<Rightarrow> 'a word" where
  "IS_INVALID_SECTOR_SIZE s = s mod word_of_int SECTOR_SIZE"

definition IS_INVALID_SECTOR_SIZE_int :: "c_int \<Rightarrow> c_int" where
  "IS_INVALID_SECTOR_SIZE_int s = word_of_int (sint s smod SECTOR_SIZE)"

text \<open>
  \<open>_ALIGN(size, align)\<close> is \<open>(((size) + ((align) - 1)) & ~((align) - 1))\<close>. The
  macro's name loses its leading underscore here. The macro takes the types of its
  operands, and what it computes depends on them. \<open>ALIGN\<close> is the macro on two operands of
  one type, of 32 or of 64 bits (C promotes a narrower operand to \<open>int\<close>, and an \<open>int\<close> next
  to a \<open>uint32_t\<close> is converted to it unchanged).
\<close>

definition ALIGN :: "'a::len word \<Rightarrow> 'a word \<Rightarrow> 'a word" where
  "ALIGN sz align = (sz + (align - 1)) AND NOT (align - 1)"

text \<open>
  The structures of the header hold sizes of type \<open>uint64_t\<close> next to \<open>uint32_t\<close> and
  \<open>int\<close> values. With a 64-bit size and a narrower alignment, \<open>(align) - 1\<close> and
  \<open>~((align) - 1)\<close> are computed in the 32 bits of the alignment and then widened to
  64 bits: by zero extension from \<open>uint32_t\<close>, by sign extension from \<open>int\<close> (the type of
  a literal such as \<open>SECTOR_SIZE\<close>).
\<close>

definition ALIGN_u64_u32 :: "u64 \<Rightarrow> u32 \<Rightarrow> u64" where
  "ALIGN_u64_u32 sz align = (sz + ucast (align - 1)) AND ucast (NOT (align - 1))"

definition ALIGN_u64_int :: "u64 \<Rightarrow> c_int \<Rightarrow> u64" where
  "ALIGN_u64_int sz align = (sz + scast (align - 1)) AND scast (NOT (align - 1))"

section \<open>Arithmetic of words\<close>

subsection \<open>Clearing the low bits rounds down\<close>

lemma and_not_mask_w: "(x :: 'a::len word) AND NOT (mask k) = push_bit k (drop_bit k x)"
  by (rule bit_eqI) (auto simp add: bit_simps)

lemma and_not_mask_diff: "(x :: 'a::len word) AND NOT (mask k) = x - take_bit k x"
proof -
  have "push_bit k (drop_bit k x) + take_bit k x = x"
    by (rule bits_ident)
  then have "push_bit k (drop_bit k x) = x - take_bit k x"
    by (simp add: algebra_simps)
  then show ?thesis
    by (simp only: and_not_mask_w)
qed

lemma unat_round_down:
  "unat ((x :: 'a::len word) AND NOT (mask k)) = unat x div 2 ^ k * 2 ^ k"
proof -
  have "unat (take_bit k x) = take_bit k (unat x)"
    by (rule unsigned_take_bit_eq)
  then have tb: "unat (take_bit k x) = unat x mod 2 ^ k"
    by (simp only: take_bit_eq_mod)
  then have le: "take_bit k x \<le> x"
    by (simp add: word_le_nat_alt)
  have "unat (x AND NOT (mask k)) = unat (x - take_bit k x)"
    by (simp only: and_not_mask_diff)
  also have "\<dots> = unat x - unat (take_bit k x)"
    using le by (rule unat_sub)
  also have "\<dots> = unat x - unat x mod 2 ^ k"
    by (simp only: tb)
  finally show ?thesis
    by (simp add: minus_mod_eq_div_mult)
qed

lemma div_mult_mod_pow:
  fixes n :: nat
  assumes "k \<le> N"
  shows "(n mod 2 ^ N) div 2 ^ k * 2 ^ k = (n div 2 ^ k * 2 ^ k) mod 2 ^ N"
proof -
  from assms obtain j where N: "N = k + j"
    by (auto simp add: le_iff_add)
  have "(n mod 2 ^ N) div 2 ^ k = (n div 2 ^ k) mod 2 ^ j"
    by (simp add: N power_add mod_mult2_eq)
  moreover have "(n div 2 ^ k * 2 ^ k) mod 2 ^ N = (n div 2 ^ k) mod 2 ^ j * 2 ^ k"
    by (simp add: N power_add mult.commute)
  ultimately show ?thesis by simp
qed

subsection \<open>The least multiple at or above a number\<close>

lemma least_multiple:
  fixes n a :: nat
  assumes "0 < a"
  shows "(LEAST m. a dvd m \<and> n \<le> m) = (n + (a - 1)) div a * a"
proof -
  define t where "t = (n + (a - 1)) div a"
  have "n + (a - 1) < a + t * a"
    unfolding t_def using assms by (rule dividend_less_div_times)
  with assms have up: "n \<le> t * a"
    by linarith
  have low: "t * a \<le> m" if "a dvd m \<and> n \<le> m" for m
  proof -
    from that obtain q where m: "m = q * a" and le: "n \<le> q * a"
      by (auto simp add: dvd_def mult.commute)
    have "t \<le> (q * a + (a - 1)) div a"
      unfolding t_def using le by (intro div_le_mono add_le_mono1)
    also have "\<dots> = q"
      using assms div_mult_self3 [of a q "a - 1"] by simp
    finally show ?thesis
      using m by simp
  qed
  have "(LEAST m. a dvd m \<and> n \<le> m) = t * a"
    by (rule Least_equality) (use up low in simp_all)
  then show ?thesis
    by (simp only: t_def)
qed

lemma unat_2p:
  assumes "k < LENGTH('a::len)"
  shows "unat (2 ^ k :: 'a word) = 2 ^ k"
proof -
  have "unat (word_of_nat (2 ^ k) :: 'a word) = 2 ^ k mod 2 ^ LENGTH('a)"
    by (rule unat_of_nat)
  moreover have "(2 :: nat) ^ k < 2 ^ LENGTH('a)"
    using assms by simp
  ultimately show ?thesis
    by simp
qed

lemma unat_pow_minus_one:
  assumes "k < LENGTH('a::len)"
  shows "unat (2 ^ k - 1 :: 'a word) = 2 ^ k - 1"
proof -
  have p: "unat (2 ^ k :: 'a word) = 2 ^ k"
    using assms by (rule unat_2p)
  then have "unat (2 ^ k :: 'a word) \<noteq> 0"
    by simp
  then have "(2 ^ k :: 'a word) \<noteq> 0"
    by (simp only: unat_eq_0 not_False_eq_True)
  then have "unat (2 ^ k - 1 :: 'a word) = unat (2 ^ k :: 'a word) - 1"
    by (rule unat_minus_one)
  with p show ?thesis by simp
qed

subsection \<open>The signed remainder by 512\<close>

lemma smod_zero_iff: "(k smod 512 = 0) = (512 dvd (k::int))"
proof -
  have "(k smod 512 = 0) = (\<bar>k\<bar> mod 512 = 0)"
    by (cases "k = 0") (simp_all add: signed_modulo_int_def sgn_if)
  also have "\<dots> = (512 dvd \<bar>k\<bar>)"
    by (simp only: dvd_eq_mod_eq_0)
  finally show ?thesis by simp
qed

lemma word_of_smod_zero_iff:
  "((word_of_int (sint (s :: c_int) smod 512) :: c_int) \<noteq> 0) = (\<not> 512 dvd sint s)"
proof -
  have "sint s smod 512 \<in> {- \<bar>512\<bar> + 1..\<bar>512\<bar> - 1}"
    by (rule smod_int_range) simp
  then have b: "\<bar>sint s smod 512\<bar> < 2 ^ 32" by (simp add: abs_if)
  have "((word_of_int (sint s smod 512) :: 32 word) = 0) = (sint s smod 512 = 0)"
  proof
    assume "(word_of_int (sint s smod 512) :: 32 word) = 0"
    then have "(2 ^ 32 :: int) dvd sint s smod 512"
      by (simp add: word_of_int_eq_0_iff)
    then have "(2 ^ 32 :: int) dvd \<bar>sint s smod 512\<bar>"
      by simp
    then have "0 < \<bar>sint s smod 512\<bar> \<Longrightarrow> (2 ^ 32 :: int) \<le> \<bar>sint s smod 512\<bar>"
      by (rule zdvd_imp_le)
    with b show "sint s smod 512 = 0"
      by auto
  next
    assume "sint s smod 512 = 0"
    then show "(word_of_int (sint s smod 512) :: 32 word) = 0" by simp
  qed
  then show ?thesis by (simp add: smod_zero_iff)
qed

subsection \<open>Alignment of operands of one width\<close>

lemma ALIGN_same_width:
  fixes s :: "'a::len word"
  assumes "k < LENGTH('a)"
  shows "unat (ALIGN s (2 ^ k)) =
         (LEAST m. 2 ^ k dvd m \<and> unat s \<le> m) mod 2 ^ LENGTH('a)"
proof -
  have m1: "unat (2 ^ k - 1 :: 'a word) = 2 ^ k - 1"
    using assms by (rule unat_pow_minus_one)
  have "ALIGN s (2 ^ k) = (s + (2 ^ k - 1)) AND NOT (mask k)"
    by (simp add: ALIGN_def mask_eq_exp_minus_1)
  then have "unat (ALIGN s (2 ^ k)) = unat (s + (2 ^ k - 1)) div 2 ^ k * 2 ^ k"
    by (simp only: unat_round_down)
  also have "unat (s + (2 ^ k - 1)) = (unat s + (2 ^ k - 1)) mod 2 ^ LENGTH('a)"
    by (simp only: unat_word_ariths m1)
  also have "(unat s + (2 ^ k - 1)) mod 2 ^ LENGTH('a) div 2 ^ k * 2 ^ k =
             ((unat s + (2 ^ k - 1)) div 2 ^ k * 2 ^ k) mod 2 ^ LENGTH('a)"
    using assms by (intro div_mult_mod_pow) simp
  also have "(unat s + (2 ^ k - 1)) div 2 ^ k * 2 ^ k =
             (LEAST m. 2 ^ k dvd m \<and> unat s \<le> m)"
    by (rule least_multiple [symmetric]) simp
  finally show ?thesis .
qed

subsection \<open>Alignment of a 64-bit size to an alignment of type uint32_t\<close>

text \<open>
  The widened mask has no bit above bit 31, so the result is the least multiple only
  modulo \<open>2^32\<close>, the width of the alignment.
\<close>

lemma ucast_not_mask:
  "(ucast (NOT (mask k) :: u32) :: u64) = NOT (mask k) AND mask 32"
  by (rule bit_eqI) (auto simp add: bit_simps)

lemma ucast_mask_32_64:
  "k < 32 \<Longrightarrow> (ucast (2 ^ k - 1 :: u32) :: u64) = 2 ^ k - 1"
  by (simp add: ucast_mask_eq flip: mask_eq_exp_minus_1)

lemma ALIGN_u64_u32_least_multiple:
  assumes "k < 32"
  shows "unat (ALIGN_u64_u32 s (2 ^ k)) =
         (LEAST m. 2 ^ k dvd m \<and> unat s \<le> m) mod 2 ^ 32"
proof -
  have m1: "unat (2 ^ k - 1 :: u64) = 2 ^ k - 1"
    using assms by (intro unat_pow_minus_one) simp
  have "ALIGN_u64_u32 s (2 ^ k) = take_bit 32 ((s + (2 ^ k - 1)) AND NOT (mask k))"
    using assms
    by (simp add: ALIGN_u64_u32_def ucast_mask_32_64 take_bit_eq_mask and.assoc)
       (simp add: ucast_not_mask flip: mask_eq_exp_minus_1)
  then have "unat (ALIGN_u64_u32 s (2 ^ k)) =
             take_bit 32 (unat ((s + (2 ^ k - 1)) AND NOT (mask k)))"
    by (simp only: unsigned_take_bit_eq)
  then have "unat (ALIGN_u64_u32 s (2 ^ k)) =
             unat ((s + (2 ^ k - 1)) AND NOT (mask k)) mod 2 ^ 32"
    by (simp only: take_bit_eq_mod)
  also have "\<dots> = unat (s + (2 ^ k - 1)) div 2 ^ k * 2 ^ k mod 2 ^ 32"
    by (simp only: unat_round_down)
  also have "unat (s + (2 ^ k - 1)) = (unat s + (2 ^ k - 1)) mod 2 ^ 64"
    by (simp only: unat_word_ariths m1) simp
  also have "(unat s + (2 ^ k - 1)) mod 2 ^ 64 div 2 ^ k * 2 ^ k =
             ((unat s + (2 ^ k - 1)) div 2 ^ k * 2 ^ k) mod 2 ^ 64"
    using assms by (intro div_mult_mod_pow) simp
  also have "((unat s + (2 ^ k - 1)) div 2 ^ k * 2 ^ k) mod 2 ^ 64 mod 2 ^ 32 =
             ((unat s + (2 ^ k - 1)) div 2 ^ k * 2 ^ k) mod 2 ^ 32"
    by (rule mod_mod_cancel) (simp add: le_imp_power_dvd)
  also have "(unat s + (2 ^ k - 1)) div 2 ^ k * 2 ^ k =
             (LEAST m. 2 ^ k dvd m \<and> unat s \<le> m)"
    by (rule least_multiple [symmetric]) simp
  finally show ?thesis .
qed

subsection \<open>Alignment of a 64-bit size to an alignment of type int\<close>

text \<open>Sign extension keeps the mask whole, so this is the macro on two 64-bit operands.\<close>

lemma scast_mask_32_64:
  "k < 32 \<Longrightarrow> (scast (mask k :: c_int) :: u64) = mask k"
  by (rule bit_eqI) (auto simp add: bit_simps min_def)

lemma scast_not_mask_32_64:
  "k < 32 \<Longrightarrow> (scast (NOT (mask k) :: c_int) :: u64) = NOT (mask k)"
  by (rule bit_eqI) (auto simp add: bit_simps min_def)

lemma ALIGN_u64_int_eq:
  assumes "k < 32"
  shows "ALIGN_u64_int s (2 ^ k) = ALIGN s (2 ^ k)"
  using assms
  by (simp add: ALIGN_u64_int_def ALIGN_def scast_mask_32_64 scast_not_mask_32_64
      flip: mask_eq_exp_minus_1)

section \<open>Properties of the AFD interface\<close>

text \<open>
  C4. The eleven poll event constants are, in the order receive, receive-expedited, send,
  disconnect, abort, local-close, connect, accept, connect-fail, QoS, group-QoS, the
  single bits \<open>1 << b\<close> for \<open>b\<close> from 0 to 10; they are pairwise distinct; and
  \<open>AFD_POLL_ALL\<close> is \<open>2^11 - 1\<close>, the union of exactly these eleven bits.
\<close>

theorem afd_poll_events_single_bits:
  "afd_poll_events = map (\<lambda>b. push_bit b 1) [0, 1, 2, 3, 4, 5, 6, 7, 8, 9, 10]
   \<and> afd_poll_events = [1, 2, 4, 8, 16, 32, 64, 128, 256, 512, 1024]
   \<and> distinct afd_poll_events
   \<and> AFD_POLL_ALL = 2 ^ 11 - 1
   \<and> AFD_POLL_ALL = foldr (OR) afd_poll_events 0"
  by (simp add: afd_poll_events_def AFD_POLL_ALL_def AFD_NUM_POLL_EVENTS_def
      AFD_POLL_RECEIVE_def AFD_POLL_RECEIVE_BIT_def
      AFD_POLL_RECEIVE_EXPEDITED_def AFD_POLL_RECEIVE_EXPEDITED_BIT_def
      AFD_POLL_SEND_def AFD_POLL_SEND_BIT_def
      AFD_POLL_DISCONNECT_def AFD_POLL_DISCONNECT_BIT_def
      AFD_POLL_ABORT_def AFD_POLL_ABORT_BIT_def
      AFD_POLL_LOCAL_CLOSE_def AFD_POLL_LOCAL_CLOSE_BIT_def
      AFD_POLL_CONNECT_def AFD_POLL_CONNECT_BIT_def
      AFD_POLL_ACCEPT_def AFD_POLL_ACCEPT_BIT_def
      AFD_POLL_CONNECT_FAIL_def AFD_POLL_CONNECT_FAIL_BIT_def
      AFD_POLL_QOS_def AFD_POLL_QOS_BIT_def
      AFD_POLL_GROUP_QOS_def AFD_POLL_GROUP_QOS_BIT_def)

text \<open>
  C1. A control code is \<open>(base << 12) | (operation << 2) | method\<close> with the base
  \<open>FILE_DEVICE_NETWORK\<close>, and the three codes the header defines are those of receive
  (operation 5, method "neither"), receive-datagram (operation 6, method "neither") and
  poll (operation 9, method "buffered").
\<close>

theorem afd_control_codes:
  "AFD_CONTROL_CODE sdk operation method =
     push_bit 12 (FILE_DEVICE_NETWORK sdk) OR push_bit 2 operation OR method
   \<and> IOCTL_AFD_RECEIVE sdk =
       push_bit 12 (FILE_DEVICE_NETWORK sdk) OR push_bit 2 5 OR METHOD_NEITHER sdk
   \<and> IOCTL_AFD_RECEIVE_DATAGRAM sdk =
       push_bit 12 (FILE_DEVICE_NETWORK sdk) OR push_bit 2 6 OR METHOD_NEITHER sdk
   \<and> IOCTL_AFD_POLL sdk =
       push_bit 12 (FILE_DEVICE_NETWORK sdk) OR push_bit 2 9 OR METHOD_BUFFERED sdk"
  by (simp add: AFD_CONTROL_CODE_def FSCTL_AFD_BASE_def IOCTL_AFD_RECEIVE_def
      IOCTL_AFD_RECEIVE_DATAGRAM_def IOCTL_AFD_POLL_def AFD_RECEIVE_def
      AFD_RECEIVE_DATAGRAM_def AFD_POLL_def)

section \<open>Properties of the digest layer\<close>

text \<open>
  C7. The four error constants (feature unavailable, bad input data, allocation failed,
  file I/O error) are negative, pairwise distinct, and distinct from the success value 0.
\<close>

theorem md_error_codes_distinct:
  "distinct [md_success, POLARSSL_ERR_MD_FEATURE_UNAVAILABLE, POLARSSL_ERR_MD_BAD_INPUT_DATA,
             POLARSSL_ERR_MD_ALLOC_FAILED, POLARSSL_ERR_MD_FILE_IO_ERROR]
   \<and> md_success = 0
   \<and> POLARSSL_ERR_MD_FEATURE_UNAVAILABLE < 0
   \<and> POLARSSL_ERR_MD_BAD_INPUT_DATA < 0
   \<and> POLARSSL_ERR_MD_ALLOC_FAILED < 0
   \<and> POLARSSL_ERR_MD_FILE_IO_ERROR < 0"
  by (simp add: md_success_def POLARSSL_ERR_MD_FEATURE_UNAVAILABLE_def
      POLARSSL_ERR_MD_BAD_INPUT_DATA_def POLARSSL_ERR_MD_ALLOC_FAILED_def
      POLARSSL_ERR_MD_FILE_IO_ERROR_def)

text \<open>
  C6. \<open>md_get_size\<close> of a descriptor whose size field is between 0 and 255 is that size
  field, and \<open>md_get_size(NULL)\<close> is 0.
\<close>

theorem md_get_size_exact:
  "md_get_size None = 0
   \<and> (0 \<le> sint (size' info) \<and> sint (size' info) \<le> 255
        \<longrightarrow> uint (md_get_size (Some info)) = sint (size' info))"
proof (intro conjI impI)
  show "md_get_size None = 0"
    by (simp add: md_get_size_def)
next
  assume range: "0 \<le> sint (size' info) \<and> sint (size' info) \<le> 255"
  have "uint (size' info) = take_bit 32 (sint (size' info))"
    by (simp add: uint_sint)
  also have "\<dots> = sint (size' info)"
    using range by (simp add: take_bit_int_eq_self)
  finally have unsigned: "sint (size' info) = uint (size' info)"
    by simp
  have "uint (md_get_size (Some info)) = take_bit 8 (uint (size' info))"
    by (simp add: md_get_size_def unsigned_ucast_eq)
  also have "\<dots> = uint (size' info)"
    using range unsigned by (simp add: take_bit_int_eq_self)
  finally show "uint (md_get_size (Some info)) = sint (size' info)"
    using unsigned by simp
qed

theorem md_get_size_exact_witness:
  "0 \<le> sint (size' sample_info) \<and> sint (size' sample_info) \<le> 255
   \<and> uint (md_get_size (Some sample_info)) = 32
   \<and> md_get_size (None :: unit md_info_t option) = 0"
proof -
  have size32: "sint (size' sample_info) = 32"
    by (simp add: sample_info_def)
  then have range: "0 \<le> sint (size' sample_info) \<and> sint (size' sample_info) \<le> 255"
    by simp
  from md_get_size_exact [of sample_info] range
  have "md_get_size (None :: unit md_info_t option) = 0"
    and "uint (md_get_size (Some sample_info)) = sint (size' sample_info)"
    by blast+
  with size32 range show ?thesis
    by simp
qed

text \<open>
  C10. The accessors do not dereference a null descriptor: \<open>md_get_type(NULL)\<close> is
  \<open>POLARSSL_MD_NONE\<close>, whose value is 0, and \<open>md_get_name(NULL)\<close> is \<open>NULL\<close>. On a
  descriptor they return its fields.
\<close>

theorem md_accessors_null:
  "md_get_type None = POLARSSL_MD_NONE
   \<and> md_type_value POLARSSL_MD_NONE = 0
   \<and> md_get_name None = None
   \<and> md_get_type (Some info) = type info
   \<and> md_get_name (Some info) = name info"
  by (simp add: md_get_type_def md_get_name_def)

section \<open>Properties of the disk layer\<close>

text \<open>
  C3. For every requested I/O size \<open>s\<close>, \<open>IS_INVALID_SECTOR_SIZE(s)\<close> is nonzero exactly
  when \<open>s\<close> is not a multiple of the sector size 512: a length is accepted exactly when
  it is a multiple of 512. This holds for a size of type \<open>uint32_t\<close>, \<open>uint64_t\<close> and
  \<open>int\<close>.
\<close>

theorem IS_INVALID_SECTOR_SIZE_iff:
  "(IS_INVALID_SECTOR_SIZE (s32 :: u32) \<noteq> 0) = (\<not> 512 dvd unat s32)
   \<and> (IS_INVALID_SECTOR_SIZE (s64 :: u64) \<noteq> 0) = (\<not> 512 dvd unat s64)
   \<and> (IS_INVALID_SECTOR_SIZE_int si \<noteq> 0) = (\<not> 512 dvd sint si)"
proof (intro conjI)
  have "unat (s32 mod 512) = unat s32 mod 512"
    by (simp add: unat_mod)
  then have "(s32 mod 512 \<noteq> 0) = (\<not> 512 dvd unat s32)"
    by (metis unat_eq_0 dvd_eq_mod_eq_0)
  then show "(IS_INVALID_SECTOR_SIZE s32 \<noteq> 0) = (\<not> 512 dvd unat s32)"
    by (simp add: IS_INVALID_SECTOR_SIZE_def SECTOR_SIZE_def)
next
  have "unat (s64 mod 512) = unat s64 mod 512"
    by (simp add: unat_mod)
  then have "(s64 mod 512 \<noteq> 0) = (\<not> 512 dvd unat s64)"
    by (metis unat_eq_0 dvd_eq_mod_eq_0)
  then show "(IS_INVALID_SECTOR_SIZE s64 \<noteq> 0) = (\<not> 512 dvd unat s64)"
    by (simp add: IS_INVALID_SECTOR_SIZE_def SECTOR_SIZE_def)
next
  show "(IS_INVALID_SECTOR_SIZE_int si \<noteq> 0) = (\<not> 512 dvd sint si)"
    by (simp only: IS_INVALID_SECTOR_SIZE_int_def SECTOR_SIZE_def word_of_smod_zero_iff)
qed

text \<open>
  C9, as the code has it. For every alignment \<open>2^k\<close> that is a positive power of two in
  its type, \<open>_ALIGN(s, 2^k)\<close> is the least multiple of the alignment that is greater than
  or equal to \<open>s\<close>, taken modulo \<open>2^32\<close> when both operands have 32 bits, and modulo
  \<open>2^64\<close> when both have 64 bits or the size has 64 bits and the alignment is an \<open>int\<close>.
  When the size has 64 bits and the alignment is a \<open>uint32_t\<close>, it is that least multiple
  taken modulo \<open>2^32\<close> only, although the result has 64 bits.
\<close>

theorem ALIGN_by_operand_types:
  "(k < 32 \<longrightarrow>
      unat (ALIGN (s32 :: u32) (2 ^ k)) =
        (LEAST m. 2 ^ k dvd m \<and> unat s32 \<le> m) mod 2 ^ 32)
   \<and> (k < 64 \<longrightarrow>
      unat (ALIGN (s64 :: u64) (2 ^ k)) =
        (LEAST m. 2 ^ k dvd m \<and> unat s64 \<le> m) mod 2 ^ 64)
   \<and> (k < 31 \<longrightarrow>
      unat (ALIGN_u64_int s64 (2 ^ k)) =
        (LEAST m. 2 ^ k dvd m \<and> unat s64 \<le> m) mod 2 ^ 64)
   \<and> (k < 32 \<longrightarrow>
      unat (ALIGN_u64_u32 s64 (2 ^ k)) =
        (LEAST m. 2 ^ k dvd m \<and> unat s64 \<le> m) mod 2 ^ 32)"
proof (intro conjI impI)
  assume "k < 32"
  then have "k < LENGTH(32)" by simp
  then have "unat (ALIGN s32 (2 ^ k)) =
             (LEAST m. 2 ^ k dvd m \<and> unat s32 \<le> m) mod 2 ^ LENGTH(32)"
    by (rule ALIGN_same_width)
  then show "unat (ALIGN s32 (2 ^ k)) = (LEAST m. 2 ^ k dvd m \<and> unat s32 \<le> m) mod 2 ^ 32"
    by simp
next
  assume "k < 64"
  then have "k < LENGTH(64)" by simp
  then have "unat (ALIGN s64 (2 ^ k)) =
             (LEAST m. 2 ^ k dvd m \<and> unat s64 \<le> m) mod 2 ^ LENGTH(64)"
    by (rule ALIGN_same_width)
  then show "unat (ALIGN s64 (2 ^ k)) = (LEAST m. 2 ^ k dvd m \<and> unat s64 \<le> m) mod 2 ^ 64"
    by simp
next
  assume k: "k < 31"
  then have "k < LENGTH(64)" by simp
  then have "unat (ALIGN s64 (2 ^ k)) =
             (LEAST m. 2 ^ k dvd m \<and> unat s64 \<le> m) mod 2 ^ LENGTH(64)"
    by (rule ALIGN_same_width)
  moreover from k have "ALIGN_u64_int s64 (2 ^ k) = ALIGN s64 (2 ^ k)"
    by (intro ALIGN_u64_int_eq) simp
  ultimately show "unat (ALIGN_u64_int s64 (2 ^ k)) =
                   (LEAST m. 2 ^ k dvd m \<and> unat s64 \<le> m) mod 2 ^ 64"
    by simp
next
  assume "k < 32"
  then show "unat (ALIGN_u64_u32 s64 (2 ^ k)) =
             (LEAST m. 2 ^ k dvd m \<and> unat s64 \<le> m) mod 2 ^ 32"
    by (rule ALIGN_u64_u32_least_multiple)
qed

theorem ALIGN_by_operand_types_witness:
  "(3 :: nat) < 31
   \<and> ALIGN (13 :: u32) (2 ^ 3) = 16
   \<and> (LEAST m. 2 ^ 3 dvd m \<and> unat (13 :: u32) \<le> m) mod 2 ^ 32 = 16
   \<and> ALIGN (0x100000001 :: u64) (2 ^ 3) = 0x100000008
   \<and> ALIGN_u64_int 0x100000001 (2 ^ 3) = 0x100000008
   \<and> (LEAST m. 2 ^ 3 dvd m \<and> unat (0x100000001 :: u64) \<le> m) mod 2 ^ 64 = 0x100000008
   \<and> ALIGN_u64_u32 0x100000001 (2 ^ 3) = 8
   \<and> (LEAST m. 2 ^ 3 dvd m \<and> unat (0x100000001 :: u64) \<le> m) mod 2 ^ 32 = 8"
proof -
  have k: "(3 :: nat) < 32" "(3 :: nat) < 64" "(3 :: nat) < 31"
    by simp_all
  have a: "ALIGN (13 :: u32) (2 ^ 3) = 16"
    by (simp add: ALIGN_def)
  have b: "ALIGN (0x100000001 :: u64) (2 ^ 3) = 0x100000008"
    by (simp add: ALIGN_def)
  have c: "ALIGN_u64_int 0x100000001 (2 ^ 3) = 0x100000008"
    by (simp add: ALIGN_u64_int_def)
  have d: "ALIGN_u64_u32 0x100000001 (2 ^ 3) = 8"
    by (simp add: ALIGN_u64_u32_def)
  note inst = ALIGN_by_operand_types [of 3 13 "0x100000001"]
  from inst k have "(LEAST m. 2 ^ 3 dvd m \<and> unat (13 :: u32) \<le> m) mod 2 ^ 32
                   = unat (ALIGN (13 :: u32) (2 ^ 3))"
    by simp
  then have l32: "(LEAST m. 2 ^ 3 dvd m \<and> unat (13 :: u32) \<le> m) mod 2 ^ 32 = 16"
    by (simp only: a) simp
  from inst k have "(LEAST m. 2 ^ 3 dvd m \<and> unat (0x100000001 :: u64) \<le> m) mod 2 ^ 64
                   = unat (ALIGN (0x100000001 :: u64) (2 ^ 3))"
    by simp
  then have l64: "(LEAST m. 2 ^ 3 dvd m \<and> unat (0x100000001 :: u64) \<le> m) mod 2 ^ 64
                  = 0x100000008"
    by (simp only: b) simp
  from inst k have "(LEAST m. 2 ^ 3 dvd m \<and> unat (0x100000001 :: u64) \<le> m) mod 2 ^ 32
                   = unat (ALIGN_u64_u32 0x100000001 (2 ^ 3))"
    by simp
  then have lmix: "(LEAST m. 2 ^ 3 dvd m \<and> unat (0x100000001 :: u64) \<le> m) mod 2 ^ 32 = 8"
    by (simp only: d) simp
  from k a b c d l32 l64 lmix show ?thesis
    by (intro conjI)
qed

text \<open>
  C9, as the claim has it, holds for every size and every alignment that is a power of two.
  With the size \<open>0x100000001\<close> of type \<open>uint64_t\<close> and the alignment 8 of type
  \<open>uint32_t\<close> the macro gives 8: less than the size, and not \<open>0x100000008\<close>, the least
  multiple of 8 at or above it, which 64-bit arithmetic holds without wrapping.
\<close>

theorem ALIGN_u64_u32_counterexample:
  "ALIGN_u64_u32 0x100000001 (2 ^ 3) = 8
   \<and> ALIGN_u64_u32 0x100000001 (2 ^ 3) < 0x100000001
   \<and> ALIGN_u64_u32 0x100000001 (2 ^ 3) \<noteq> 0x100000008"
  by (simp add: ALIGN_u64_u32_def)

text \<open>
  C8. A drive descriptor holds an ordered sequence of at most 16 extent entries: the array
  \<open>disks\<close> has exactly 16 slots, so however many of its leading slots a descriptor uses,
  the count of its extents is between 0 and 16.
\<close>

theorem drive_info_extent_slots:
  "length (slots (disks d)) = 16
   \<and> length (take n (slots (disks d))) \<le> 16
   \<and> length (take n (slots (disks d))) = min n 16"
proof -
  have "slots (disks d) \<in> {xs. length xs = 16}"
    by (rule slots)
  then show ?thesis
    by simp
qed

section \<open>The maximum digest size\<close>

text \<open>
  C5, as the code has it. \<open>POLARSSL_MD_MAX_SIZE\<close> is 64 bytes in a build that defines
  \<open>POLARSSL_SHA512_C\<close> and 32 bytes in one that does not, so it is at most 64 in every
  build; and the output size of every digest kind is at most 64 bytes.
\<close>

theorem POLARSSL_MD_MAX_SIZE_by_build:
  "POLARSSL_MD_MAX_SIZE True = 64
   \<and> POLARSSL_MD_MAX_SIZE False = 32
   \<and> POLARSSL_MD_MAX_SIZE sha512_c \<le> 64
   \<and> md_output_size kind \<le> 64"
  by (cases kind) (simp_all add: POLARSSL_MD_MAX_SIZE_def)

text \<open>
  C5, as the claim has it, says the maximum is 64 bytes. In a build without
  \<open>POLARSSL_SHA512_C\<close> the header makes it 32.
\<close>

theorem POLARSSL_MD_MAX_SIZE_counterexample:
  "POLARSSL_MD_MAX_SIZE False \<noteq> 64"
  by (simp add: POLARSSL_MD_MAX_SIZE_def)

end
